theory Spec2Isabelle
  imports Complex_Main "HOL-Library.Signed_Division"
begin

section \<open>ts-discord-status: the TeamSpeak snapshot\<close>

text \<open>
  Go's \<open>int\<close> and \<open>time.Duration\<close> are 64-bit signed integers. They are modelled as
  \<open>int\<close>; the two multiplications of \<open>GetState\<close> that can leave the 64-bit range
  are wrapped with \<open>wrap64\<close>. A \<open>time.Duration\<close> counts nanoseconds.
\<close>

definition wrap64 :: "int \<Rightarrow> int" where
  "wrap64 n = (n + 2 ^ 63) mod 2 ^ 64 - 2 ^ 63"

definition Millisecond :: int where
  "Millisecond = 1000000"

definition Second :: int where
  "Second = 1000000000"

definition Minute :: int where
  "Minute = 60 * Second"

definition Hour :: int where
  "Hour = 60 * Minute"

subsection \<open>float64\<close>

text \<open>
  A finite float64 is written as a mantissa and an exponent, \<open>(m, k)\<close> for
  \<open>m * 2 ^ k\<close>; several pairs may denote one number. An operation rounds its exact
  result to the nearest number with a mantissa of 53 bits, a tie to the even mantissa.
  The range of the exponent is left out: every number met here lies between
  \<open>2 ^ - 64\<close> and \<open>2 ^ 64\<close> or is zero. The sign of a zero is left out as well; no
  comparison and no conversion here depends on it.
\<close>

type_synonym dyadic = "int \<times> int"

text \<open>The length of the binary numeral of a positive integer.\<close>

function bits :: "int \<Rightarrow> nat" where
  "bits n = (if n \<le> 0 then 0 else Suc (bits (n div 2)))"
  by pat_completeness auto
termination
  by (relation "measure nat") auto

declare bits.simps [simp del]

text \<open>The exponent \<open>e\<close> of a positive ratio: \<open>2 ^ e \<le> p / q < 2 ^ (e + 1)\<close>.\<close>

definition expo :: "int \<Rightarrow> int \<Rightarrow> int" where
  "expo p q =
     (let d = int (bits p) - int (bits q)
      in if q * 2 ^ nat d \<le> p * 2 ^ nat (- d) then d else d - 1)"

text \<open>The float64 nearest to \<open>p / q\<close>, for positive \<open>p\<close> and \<open>q\<close>.\<close>

definition nearest :: "int \<Rightarrow> int \<Rightarrow> dyadic" where
  "nearest p q =
     (let k = expo p q - 52;
          N = p * 2 ^ nat (- k);
          D = q * 2 ^ nat k;
          f = N div D;
          r = N mod D;
          m = (if 2 * r < D then f else if D < 2 * r then f + 1
               else if even f then f else f + 1)
      in (m, k))"

text \<open>The float64 nearest to \<open>n / d\<close>, for any \<open>n\<close> and positive \<open>d\<close>.\<close>

definition ratio64 :: "int \<Rightarrow> int \<Rightarrow> dyadic" where
  "ratio64 n d =
     (if n = 0 then (0, 0)
      else case nearest \<bar>n\<bar> d of (m, k) \<Rightarrow> (sgn n * m, k))"

text \<open>\<open>float64(n)\<close> of an integer, and the float64 of a decimal constant \<open>p / q\<close>.\<close>

definition ofInt :: "int \<Rightarrow> dyadic" where
  "ofInt n = ratio64 n 1"

definition decimal :: "int \<Rightarrow> int \<Rightarrow> dyadic" where
  "decimal p q = ratio64 p q"

text \<open>\<open>x / y\<close> for \<open>y\<close> other than zero, and \<open>x + y\<close>.\<close>

definition quot64 :: "dyadic \<Rightarrow> dyadic \<Rightarrow> dyadic" where
  "quot64 x y =
     (case (x, y) of
        ((m1, k1), (m2, k2)) \<Rightarrow>
          ratio64 (sgn m2 * m1 * 2 ^ nat (k1 - k2)) (\<bar>m2\<bar> * 2 ^ nat (k2 - k1)))"

definition add64 :: "dyadic \<Rightarrow> dyadic \<Rightarrow> dyadic" where
  "add64 x y =
     (case (x, y) of
        ((m1, k1), (m2, k2)) \<Rightarrow>
          (let k = min k1 k2;
               n = m1 * 2 ^ nat (k1 - k) + m2 * 2 ^ nat (k2 - k)
           in ratio64 (n * 2 ^ nat k) (2 ^ nat (- k))))"

text \<open>\<open>x \<le> y\<close>, and \<open>int(x)\<close>, which truncates towards zero.\<close>

definition le64 :: "dyadic \<Rightarrow> dyadic \<Rightarrow> bool" where
  "le64 x y =
     (case (x, y) of
        ((m1, k1), (m2, k2)) \<Rightarrow> m1 * 2 ^ nat (k1 - k2) \<le> m2 * 2 ^ nat (k2 - k1))"

definition trunc64 :: "dyadic \<Rightarrow> int" where
  "trunc64 x =
     (case x of (m, k) \<Rightarrow>
        if k \<ge> 0 then m * 2 ^ nat k else sgn m * (\<bar>m\<bar> div 2 ^ nat (- k)))"

text \<open>
  The result of a division whose divisor may be zero: then it is an infinity, or NaN
  for \<open>0 / 0\<close>, and no error. \<open>x \<ge> c\<close> is false when \<open>x\<close> is NaN.
\<close>

datatype float64 = Finite dyadic | PosInf | NegInf | NaN

definition fdiv :: "dyadic \<Rightarrow> dyadic \<Rightarrow> float64" where
  "fdiv x y =
     (if fst y \<noteq> 0 then Finite (quot64 x y)
      else if fst x > 0 then PosInf
      else if fst x < 0 then NegInf
      else NaN)"

fun fge :: "float64 \<Rightarrow> dyadic \<Rightarrow> bool" where
  "fge (Finite x) c = le64 c x"
| "fge PosInf c = True"
| "fge NegInf c = False"
| "fge NaN c = False"

text \<open>
  \<open>Duration.Hours\<close> and \<open>Duration.Minutes\<close> of package \<open>time\<close>: the whole hours
  (minutes) plus the remaining nanoseconds divided by the nanoseconds of an hour
  (a minute), in float64. Go's \<open>/\<close> and \<open>%\<close> on integers truncate towards zero:
  \<open>sdiv\<close> and \<open>smod\<close>.
\<close>

definition Hours :: "int \<Rightarrow> dyadic" where
  "Hours d =
     add64 (ofInt (d sdiv Hour))
       (quot64 (ofInt (d smod Hour)) (ofInt (60 * 60 * 1000000000)))"

definition Minutes :: "int \<Rightarrow> dyadic" where
  "Minutes d =
     add64 (ofInt (d sdiv Minute))
       (quot64 (ofInt (d smod Minute)) (ofInt (60 * 1000000000)))"

text \<open>Errors are values; \<open>fmt.Errorf("...: %w", err)\<close> prefixes the message.\<close>

datatype error = Err string

fun wrapErr :: "string \<Rightarrow> error \<Rightarrow> error" where
  "wrapErr p (Err m) = Err (p @ '': '' @ m)"

subsection \<open>state.go\<close>

record User =
  ID :: int
  Nickname :: string
  ChannelID :: int
  InputMuted :: bool
  OutputMuted :: bool
  Away :: bool
  AwayMessage :: string
  IdleTime :: int
  IsRecording :: bool

record Channel =
  ch_ID :: int
  Name :: string
  ParentID :: int
  Order :: int
  Users :: "User list"

record State =
  ServerName :: string
  Uptime :: int
  Channels :: "Channel list"
  TotalUsers :: int
  MaxClients :: int

subsection \<open>The records of the query client that \<open>GetState\<close> reads\<close>

text \<open>
  The fields of the go-ts3 library's \<open>Server\<close>, \<open>Channel\<close> and \<open>OnlineClient\<close>
  that \<open>GetState\<close> reads. An \<open>OnlineClient\<close> embeds a pointer to its extension,
  which embeds pointers to the voice and the time extension, whose fields are
  pointers again: \<open>None\<close> is \<open>nil\<close>.
\<close>

record ts3_Server =
  srv_Name :: string
  srv_Uptime :: int
  srv_MaxClients :: int

record ts3_Channel =
  ts_ID :: int
  ChannelName :: string
  ts_ParentID :: int
  ChannelOrder :: int

record OnlineClientVoice =
  v_InputMuted :: "bool option"
  v_OutputMuted :: "bool option"
  v_IsRecording :: "bool option"

record OnlineClientTimes =
  t_IdleTime :: "int option"

record OnlineClientExt =
  ext_Voice :: "OnlineClientVoice option"
  ext_Times :: "OnlineClientTimes option"

record OnlineClient =
  cl_ID :: int
  cl_ChannelID :: int
  cl_Nickname :: string
  cl_Type :: int
  cl_Away :: bool
  cl_AwayMessage :: string
  cl_Ext :: "OnlineClientExt option"

text \<open>
  \<open>cl.OnlineClientVoice\<close> and \<open>cl.OnlineClientTimes\<close> are read through the embedded
  extension. Reading them panics when the extension is \<open>nil\<close>; \<open>assignClients\<close>
  below stops with that panic before it reads them, so that the second case is not
  reached.
\<close>

definition cl_Voice :: "OnlineClient \<Rightarrow> OnlineClientVoice option" where
  "cl_Voice cl = (case cl_Ext cl of Some ext \<Rightarrow> ext_Voice ext | None \<Rightarrow> None)"

definition cl_Times :: "OnlineClient \<Rightarrow> OnlineClientTimes option" where
  "cl_Times cl = (case cl_Ext cl of Some ext \<Rightarrow> ext_Times ext | None \<Rightarrow> None)"

subsection \<open>teamspeak.go: \<open>GetState\<close>\<close>

text \<open>The first loop: one \<open>Channel\<close> per listed channel, with no users.\<close>

definition newChannel :: "ts3_Channel \<Rightarrow> Channel" where
  "newChannel ch =
     \<lparr>ch_ID = ts_ID ch, Name = ChannelName ch, ParentID = ts_ParentID ch,
      Order = ChannelOrder ch, Users = []\<rparr>"

text \<open>
  \<open>channelMap\<close> maps a channel id to a pointer to its own copy of the channel, and
  \<open>stateChannels\<close> holds another copy: the map is the store of the pointed-to copies.
\<close>

fun buildChannels ::
  "ts3_Channel list \<Rightarrow> (int \<rightharpoonup> Channel) \<times> Channel list \<Rightarrow> (int \<rightharpoonup> Channel) \<times> Channel list"
where
  "buildChannels [] acc = acc"
| "buildChannels (ch # chs) (channelMap, stateChannels) =
     buildChannels chs
       (channelMap(ts_ID ch \<mapsto> newChannel ch), stateChannels @ [newChannel ch])"

text \<open>The body of the second loop up to the lookup: the \<open>User\<close> of a client.\<close>

definition voiceFlag :: "OnlineClient \<Rightarrow> (OnlineClientVoice \<Rightarrow> bool option) \<Rightarrow> bool" where
  "voiceFlag cl f =
     (case cl_Voice cl of
        None \<Rightarrow> False
      | Some v \<Rightarrow> (case f v of None \<Rightarrow> False | Some b \<Rightarrow> b))"

definition idleOf :: "OnlineClient \<Rightarrow> int" where
  "idleOf cl =
     (case cl_Times cl of
        None \<Rightarrow> 0
      | Some t \<Rightarrow> (case t_IdleTime t of None \<Rightarrow> 0 | Some ms \<Rightarrow> wrap64 (ms * Millisecond)))"

definition mkUser :: "OnlineClient \<Rightarrow> User" where
  "mkUser cl =
     \<lparr>ID = cl_ID cl, Nickname = cl_Nickname cl, ChannelID = cl_ChannelID cl,
      InputMuted = voiceFlag cl v_InputMuted, OutputMuted = voiceFlag cl v_OutputMuted,
      Away = cl_Away cl, AwayMessage = cl_AwayMessage cl, IdleTime = idleOf cl,
      IsRecording = voiceFlag cl v_IsRecording\<rparr>"

text \<open>
  The second loop: \<open>continue\<close> on a ServerQuery client, append, count. For any
  other client the test \<open>cl.OnlineClientVoice != nil\<close> dereferences the embedded
  extension: when that is \<open>nil\<close> the loop, and \<open>GetState\<close> with it, ends in a panic,
  which is the error \<open>nilDereference\<close> here.
\<close>

definition nilDereference :: error where
  "nilDereference = Err ''panic: runtime error: invalid memory address or nil pointer dereference''"

fun assignClients ::
  "OnlineClient list \<Rightarrow> (int \<rightharpoonup> Channel) \<times> int \<Rightarrow> error + (int \<rightharpoonup> Channel) \<times> int"
where
  "assignClients [] acc = Inr acc"
| "assignClients (cl # cls) (channelMap, totalUsers) =
     (if cl_Type cl = 1 then assignClients cls (channelMap, totalUsers)
      else if cl_Ext cl = None then Inl nilDereference
      else
        assignClients cls
          ((case channelMap (cl_ChannelID cl) of
              Some ch \<Rightarrow> channelMap(cl_ChannelID cl \<mapsto> ch\<lparr>Users := Users ch @ [mkUser cl]\<rparr>)
            | None \<Rightarrow> channelMap),
           totalUsers + 1))"

text \<open>The third loop: copy the user lists back into the slice.\<close>

definition populate :: "(int \<rightharpoonup> Channel) \<Rightarrow> Channel \<Rightarrow> Channel" where
  "populate channelMap c =
     (case channelMap (ch_ID c) of
        Some ch \<Rightarrow> c\<lparr>Users := Users ch\<rparr>
      | None \<Rightarrow> c)"

text \<open>
  \<open>GetState\<close>: \<open>hasClient\<close> is \<open>s.client != nil\<close>; the three results are what
  \<open>Server.Info\<close>, \<open>Server.ChannelList\<close> and \<open>Server.ClientList\<close> return. A panic
  of the second loop is returned as its error.
\<close>

definition GetState ::
  "bool \<Rightarrow> error + ts3_Server \<Rightarrow> error + ts3_Channel list \<Rightarrow> error + OnlineClient list
     \<Rightarrow> error + State"
where
  "GetState hasClient info channelList clientList =
     (if \<not> hasClient then Inl (Err ''not connected to TeamSpeak server'')
      else case info of
        Inl e \<Rightarrow> Inl (wrapErr ''failed to get server info'' e)
      | Inr server \<Rightarrow>
     (case channelList of
        Inl e \<Rightarrow> Inl (wrapErr ''failed to get channel list'' e)
      | Inr channels \<Rightarrow>
     (case clientList of
        Inl e \<Rightarrow> Inl (wrapErr ''failed to get client list'' e)
      | Inr clients \<Rightarrow>
          (let (channelMap0, stateChannels) = buildChannels channels (Map.empty, [])
           in case assignClients clients (channelMap0, 0) of
                Inl e \<Rightarrow> Inl e
              | Inr (channelMap, totalUsers) \<Rightarrow>
                  Inr \<lparr>ServerName = srv_Name server,
                       Uptime = wrap64 (srv_Uptime server * Second),
                       Channels = map (populate channelMap) stateChannels,
                       TotalUsers = totalUsers,
                       MaxClients = srv_MaxClients server\<rparr>))))"


section \<open>ts-discord-status: the Discord side\<close>

subsection \<open>Strings and formatting\<close>

text \<open>
  A Go string is a byte sequence: \<open>string\<close>. The glyphs of the source's literals are
  written byte by byte, as the source file holds them.
\<close>

definition newline :: string where
  "newline = [CHR 0x0A]"

text \<open>\<open>fmt.Sprintf("%d", n)\<close>.\<close>

function digitsOf :: "int \<Rightarrow> string" where
  "digitsOf n =
     (if n < 10 then [''0123456789'' ! nat n]
      else digitsOf (n div 10) @ [''0123456789'' ! nat (n mod 10)])"
  by pat_completeness auto
termination
  by (relation "measure nat") auto

declare digitsOf.simps [simp del]

definition sprint_d :: "int \<Rightarrow> string" where
  "sprint_d n = (if n < 0 then ''-'' @ digitsOf (- n) else digitsOf n)"

text \<open>\<open>strings.HasPrefix\<close>, \<open>strings.Contains\<close>, \<open>strings.TrimRight\<close>, \<open>strings.Join\<close>.\<close>

definition HasPrefix :: "string \<Rightarrow> string \<Rightarrow> bool" where
  "HasPrefix s p = (take (length p) s = p)"

fun Contains :: "string \<Rightarrow> string \<Rightarrow> bool" where
  "Contains [] substr = (substr = [])"
| "Contains (c # cs) substr = (HasPrefix (c # cs) substr \<or> Contains cs substr)"

definition TrimRight :: "string \<Rightarrow> string \<Rightarrow> string" where
  "TrimRight s cutset = rev (dropWhile (\<lambda>c. c \<in> set cutset) (rev s))"

fun Join :: "string list \<Rightarrow> string \<Rightarrow> string" where
  "Join [] sep = []"
| "Join [x] sep = x"
| "Join (x # y # ys) sep = x @ sep @ Join (y # ys) sep"

text \<open>
  \<open>strings.ToLower\<close> on the ASCII letters. Go also lowers the letters beyond ASCII;
  of those only U+0130 and U+212A become ASCII letters (\<open>i\<close> and \<open>k\<close>), so the bytes
  of \<open>spacer\<close> arise from ASCII letters alone and the test in \<open>buildChannelList\<close>
  is the same.
\<close>

definition lowerChar :: "char \<Rightarrow> char" where
  "lowerChar c =
     (case map_of (zip ''ABCDEFGHIJKLMNOPQRSTUVWXYZ'' ''abcdefghijklmnopqrstuvwxyz'') c of
        Some l \<Rightarrow> l
      | None \<Rightarrow> c)"

definition ToLower :: "string \<Rightarrow> string" where
  "ToLower s = map lowerChar s"

text \<open>
  \<open>strings.ReplaceAll\<close> for a pattern that is not empty, which is how the source
  calls it: the matches are replaced from the left, without overlap.
\<close>

function ReplaceAll :: "string \<Rightarrow> string \<Rightarrow> string \<Rightarrow> string" where
  "ReplaceAll s old new =
     (if old = [] \<or> s = [] then s
      else if HasPrefix s old then new @ ReplaceAll (drop (length old) s) old new
      else hd s # ReplaceAll (tl s) old new)"
  by pat_completeness auto
termination
  by (relation "measure (\<lambda>(s, old, new). length s)") auto

declare ReplaceAll.simps [simp del]

text \<open>
  \<open>int(d.Hours())\<close> and \<open>int(d.Minutes())\<close> truncate the float64 towards zero.
\<close>

definition formatIdleTime :: "int \<Rightarrow> string" where
  "formatIdleTime d =
     (let hours = trunc64 (Hours d);
          minutes = trunc64 (Minutes d) smod 60
      in if hours > 0 then sprint_d hours @ ''h'' @ sprint_d minutes @ ''m''
         else sprint_d minutes @ ''m'')"

definition formatDuration :: "int \<Rightarrow> string" where
  "formatDuration d =
     (let days = trunc64 (Hours d) sdiv 24;
          hours = trunc64 (Hours d) smod 24;
          minutes = trunc64 (Minutes d) smod 60
      in if days > 0 then sprint_d days @ ''d '' @ sprint_d hours @ ''h''
         else if hours > 0 then sprint_d hours @ ''h '' @ sprint_d minutes @ ''m''
         else sprint_d minutes @ ''m'')"

subsection \<open>discord.go: \<open>buildUserStatus\<close>\<close>

definition recordingIcon :: string where
  "recordingIcon = [CHR 0xC3, CHR 0xB0, CHR 0xC5, CHR 0xB8, CHR 0xE2, CHR 0x80, CHR 0x9D, CHR 0xC2, CHR 0xB4]"

definition outputMutedIcon :: string where
  "outputMutedIcon = [CHR 0xC3, CHR 0xB0, CHR 0xC5, CHR 0xB8, CHR 0xE2, CHR 0x80, CHR 0x9D, CHR 0xE2, CHR 0x80, CHR 0xA1]"

definition inputMutedIcon :: string where
  "inputMutedIcon = [CHR 0xC3, CHR 0xB0, CHR 0xC5, CHR 0xB8, CHR 0xC5, CHR 0xBD, CHR 0xE2, CHR 0x84, CHR 0xA2, CHR 0xC3, CHR 0xAF, CHR 0xC2, CHR 0xB8]"

definition awayIcon :: string where
  "awayIcon = [CHR 0xC3, CHR 0xB0, CHR 0xC5, CHR 0xB8, CHR 0xE2, CHR 0x80, CHR 0x99, CHR 0xC2, CHR 0xA4]"

definition buildUserStatus :: "User \<Rightarrow> string" where
  "buildUserStatus user =
     (if IsRecording user then recordingIcon else [])
     @ (if OutputMuted user then outputMutedIcon
        else if InputMuted user then inputMutedIcon else [])
     @ (if Away user then awayIcon else [])
     @ (if IdleTime user > 5 * Minute
        then '' ('' @ formatIdleTime (IdleTime user) @ '' idle)'' else [])"

subsection \<open>main.go: \<open>buildUserStatusCLI\<close>, the dry run's rendering of the same user\<close>

definition cliRecording :: string where
  "cliRecording = [CHR 0xF0, CHR 0x9F, CHR 0x94, CHR 0xB4] @ ''REC''"

definition cliOutputMuted :: string where
  "cliOutputMuted = [CHR 0xF0, CHR 0x9F, CHR 0x94, CHR 0x87]"

definition cliInputMuted :: string where
  "cliInputMuted = [CHR 0xF0, CHR 0x9F, CHR 0x8E, CHR 0x99, CHR 0xEF, CHR 0xB8, CHR 0x8F]"

definition cliAway :: string where
  "cliAway = [CHR 0xF0, CHR 0x9F, CHR 0x92, CHR 0xA4]"

definition buildUserStatusCLI :: "User \<Rightarrow> string" where
  "buildUserStatusCLI user =
     (let parts1 = (if IsRecording user then [cliRecording] else []);
          parts2 = parts1 @ (if OutputMuted user then [cliOutputMuted]
                             else if InputMuted user then [cliInputMuted] else []);
          parts3 = parts2 @ (if Away user
                             then (if AwayMessage user \<noteq> []
                                   then [cliAway @ ''('' @ AwayMessage user @ '')'']
                                   else [cliAway])
                             else []);
          parts4 = parts3 @ (if IdleTime user > 5 * Minute
                             then (let hours = trunc64 (Hours (IdleTime user));
                                       minutes = trunc64 (Minutes (IdleTime user)) smod 60
                                   in if hours > 0
                                      then [''idle '' @ sprint_d hours @ ''h'' @ sprint_d minutes @ ''m'']
                                      else [''idle '' @ sprint_d minutes @ ''m''])
                             else [])
      in Join parts4 '' '')"

subsection \<open>discord.go: \<open>buildChannelList\<close>\<close>

record DisplayConfig =
  ShowEmptyChannels :: bool
  ServerAddress :: string
  ServerPassword :: string
  CustomFooter :: string
  ChannelNameFormat :: string
  ThumbnailURL :: string

definition bullet :: string where
  "bullet = [CHR 0xC3, CHR 0xA3, CHR 0xE2, CHR 0x80, CHR 0xA6, CHR 0xC2, CHR 0xA4,
             CHR 0xC3, CHR 0xA2, CHR 0xE2, CHR 0x82, CHR 0xAC, CHR 0xC2, CHR 0xA2]"

text \<open>The inner loop: one line per user.\<close>

fun writeUsers :: "User list \<Rightarrow> string \<Rightarrow> string" where
  "writeUsers [] content = content"
| "writeUsers (user # users) content =
     (let status = buildUserStatus user
      in if status \<noteq> []
         then writeUsers users (content @ bullet @ '' '' @ Nickname user @ '' '' @ status @ newline)
         else writeUsers users (content @ bullet @ '' '' @ Nickname user @ newline))"

definition writeHeader :: "Channel \<Rightarrow> string" where
  "writeHeader ch =
     (if length (Users ch) > 0
      then ''**#'' @ Name ch @ ''** `'' @ sprint_d (int (length (Users ch))) @ ''`'' @ newline
      else ''**#'' @ Name ch @ ''**'' @ newline)"

text \<open>The outer loop, on the builder \<open>content\<close> and the flag \<open>hasContent\<close>.\<close>

fun writeChannels :: "DisplayConfig \<Rightarrow> Channel list \<Rightarrow> string \<times> bool \<Rightarrow> string \<times> bool" where
  "writeChannels display [] acc = acc"
| "writeChannels display (ch # chs) (content, hasContent) =
     (if \<not> ShowEmptyChannels display \<and> length (Users ch) = 0
      then writeChannels display chs (content, hasContent)
      else if Contains (ToLower (Name ch)) ''spacer''
      then writeChannels display chs (content, hasContent)
      else writeChannels display chs
             (writeUsers (Users ch) (content @ writeHeader ch) @ newline, True))"

definition buildChannelList :: "DisplayConfig \<Rightarrow> State \<Rightarrow> string" where
  "buildChannelList display state =
     (let (content, hasContent) = writeChannels display (Channels state) ([], False)
      in if \<not> hasContent then ''*No active channels*''
         else TrimRight content newline)"


subsection \<open>discord.go: \<open>buildEmbed\<close>\<close>

record MessageEmbedField =
  fld_Name :: string
  fld_Value :: string
  Inline :: bool

record MessageEmbedAuthor =
  au_Name :: string
  IconURL :: string

record MessageEmbed =
  Color :: int
  Timestamp :: string
  Author :: "MessageEmbedAuthor option"
  Title :: string
  Description :: string
  Thumbnail :: "string option"
  Fields :: "MessageEmbedField list"
  Footer :: "string option"

text \<open>The colours of the switch, named after the source's comments.\<close>

definition colorConnecting :: int where
  "colorConnecting = 0xFAA61A"

definition colorEmpty :: int where
  "colorEmpty = 0x95A5A6"

definition colorAlmostFull :: int where
  "colorAlmostFull = 0xE74C3C"

definition colorBusy :: int where
  "colorBusy = 0xF39C12"

definition colorAvailable :: int where
  "colorAvailable = 0x2ECC71"

definition capacityColor :: "State \<Rightarrow> int" where
  "capacityColor state =
     (let capacityPercent = fdiv (ofInt (TotalUsers state)) (ofInt (MaxClients state))
      in if TotalUsers state = 0 then colorEmpty
         else if fge capacityPercent (decimal 8 10) then colorAlmostFull
         else if fge capacityPercent (decimal 5 10) then colorBusy
         else colorAvailable)"

definition onlineName :: string where
  "onlineName = [CHR 0xC3, CHR 0xB0, CHR 0xC5, CHR 0xB8, CHR 0xE2, CHR 0x80, CHR 0x98, CHR 0xC2, CHR 0xA5] @ '' Online''"

definition uptimeName :: string where
  "uptimeName = [CHR 0xC3, CHR 0xA2, CHR 0xC2, CHR 0xB1, CHR 0xC3, CHR 0xAF, CHR 0xC2, CHR 0xB8] @ '' Uptime''"

definition connectName :: string where
  "connectName = [CHR 0xC3, CHR 0xB0, CHR 0xC5, CHR 0xB8, CHR 0xE2, CHR 0x80, CHR 0x9D, CHR 0xE2, CHR 0x80, CHR 0x94] @ '' Connect''"

definition channelsName :: string where
  "channelsName = [CHR 0xC3, CHR 0xB0, CHR 0xC5, CHR 0xB8, CHR 0xE2, CHR 0x80, CHR 0x9C, CHR 0xC2, CHR 0xA2] @ '' Channels''"

definition connectingText :: string where
  "connectingText =
     ''```'' @ newline @ [CHR 0xC3, CHR 0xA2, CHR 0xC2, CHR 0xB3] @ '' Connecting to server...''
     @ newline @ ''```''"

definition embedFields :: "DisplayConfig \<Rightarrow> State \<Rightarrow> MessageEmbedField list" where
  "embedFields display state =
     (let fields1 =
            [\<lparr>fld_Name = onlineName,
              fld_Value = ''**'' @ sprint_d (TotalUsers state) @ ''** / '' @ sprint_d (MaxClients state),
              Inline = True\<rparr>,
             \<lparr>fld_Name = uptimeName, fld_Value = formatDuration (Uptime state), Inline = True\<rparr>];
          fields2 =
            (if ServerAddress display \<noteq> []
             then fields1 @
                  [\<lparr>fld_Name = connectName,
                    fld_Value = ''`'' @ ServerAddress display @ ''`''
                      @ (if ServerPassword display \<noteq> []
                         then newline @ ''Pass: `'' @ ServerPassword display @ ''`'' else []),
                    Inline = True\<rparr>]
             else fields1);
          channelContent = buildChannelList display state
      in if channelContent \<noteq> []
         then fields2 @ [\<lparr>fld_Name = channelsName, fld_Value = channelContent, Inline = False\<rparr>]
         else fields2)"

text \<open>
  \<open>buildEmbed\<close> reads the display options of the service, the state, and the
  clock: \<open>now\<close> is the text of \<open>time.Now().Format(time.RFC3339)\<close> at the call.
  \<open>None\<close> is the \<open>nil\<close> state.
\<close>

definition buildEmbed :: "DisplayConfig \<Rightarrow> string \<Rightarrow> State option \<Rightarrow> MessageEmbed" where
  "buildEmbed display now state =
     (let embed = \<lparr>Color = 0x2B5B84, Timestamp = now,
                    Author = Some \<lparr>au_Name = ''TeamSpeak Server'',
                                   IconURL = ''https://i.imgur.com/pK2qRkC.png''\<rparr>,
                    Title = [], Description = [], Thumbnail = None, Fields = [],
                    Footer = None\<rparr>
      in case state of
           None \<Rightarrow> embed\<lparr>Description := connectingText, Color := colorConnecting\<rparr>
         | Some st \<Rightarrow>
             embed\<lparr>Title := ServerName st,
                   Thumbnail := (if ThumbnailURL display \<noteq> [] then Some (ThumbnailURL display)
                                 else None),
                   Color := capacityColor st,
                   Fields := embedFields display st,
                   Footer := Some (if CustomFooter display \<noteq> [] then CustomFooter display
                                   else ''Last updated'')\<rparr>)"


subsection \<open>discord.go: the service\<close>

text \<open>
  The service, without its logger and mutex. \<open>session = None\<close> is the \<open>nil\<close>
  session; of an open session the model keeps \<open>State.User.ID\<close>. A \<open>time.Time\<close> is
  the count of nanoseconds since the zero \<open>Time\<close>, so the zero value is \<open>0\<close>.
\<close>

record Config =
  Token :: string
  cfg_ChannelID :: string

record Session =
  botID :: string

record service =
  cfg :: Config
  display :: DisplayConfig
  session :: "Session option"
  messageID :: string
  lastUserCount :: int
  lastChannelRename :: int

definition NewService :: "Config \<Rightarrow> DisplayConfig \<Rightarrow> service" where
  "NewService c d =
     \<lparr>cfg = c, display = d, session = None, messageID = [], lastUserCount = 0,
      lastChannelRename = 0\<rparr>"

text \<open>
  What the service reads of a message of the channel: its id, \<open>Author.ID\<close> (the
  author of a listed message is taken to be present) and its embeds.
\<close>

record Message =
  msg_ID :: string
  msg_AuthorID :: string
  Embeds :: "MessageEmbed list"

text \<open>
  The requests the service sends through the session, in the order it sends them.
  Every operation returns them next to its result, so that what was sent, and what
  was not, can be stated.
\<close>

datatype request =
    ChannelMessages string int
  | ChannelMessageSendEmbed string MessageEmbed
  | ChannelMessageEditEmbed string string MessageEmbed
  | ChannelEdit string string
  | Close

text \<open>The loop of \<open>findOrCreateMessage\<close>: the first message of the bot with an embed.\<close>

fun findOwn :: "string \<Rightarrow> Message list \<Rightarrow> Message option" where
  "findOwn self [] = None"
| "findOwn self (msg # msgs) =
     (if msg_AuthorID msg = self \<and> length (Embeds msg) > 0 then Some msg
      else findOwn self msgs)"

text \<open>
  \<open>findOrCreateMessage\<close>: \<open>fetched\<close> is the result of \<open>ChannelMessages\<close>, \<open>now\<close> the
  clock text \<open>buildEmbed\<close> reads, \<open>sent\<close> the result of \<open>ChannelMessageSendEmbed\<close>.
  The result is the returned error (\<open>None\<close> is \<open>nil\<close>), the service, and the
  requests sent. With a \<open>nil\<close> session the source panics.
\<close>

definition findOrCreateMessage ::
  "service \<Rightarrow> error + Message list \<Rightarrow> string \<Rightarrow> error + Message
     \<Rightarrow> error option \<times> service \<times> request list"
where
  "findOrCreateMessage s fetched now sent =
     (case session s of
        None \<Rightarrow> (Some (Err ''panic: nil pointer dereference''), s, [])
      | Some sess \<Rightarrow>
     (let fetch = ChannelMessages (cfg_ChannelID (cfg s)) 50 in
      case fetched of
        Inl e \<Rightarrow> (Some (wrapErr ''failed to fetch channel messages'' e), s, [fetch])
      | Inr messages \<Rightarrow>
     (case findOwn (botID sess) messages of
        Some msg \<Rightarrow> (None, s\<lparr>messageID := msg_ID msg\<rparr>, [fetch])
      | None \<Rightarrow>
     (let embed = buildEmbed (display s) now None;
          send = ChannelMessageSendEmbed (cfg_ChannelID (cfg s)) embed in
      case sent of
        Inl e \<Rightarrow> (Some (wrapErr ''failed to create status message'' e), s, [fetch, send])
      | Inr msg \<Rightarrow> (None, s\<lparr>messageID := msg_ID msg\<rparr>, [fetch, send])))))"

text \<open>
  \<open>Start\<close>: \<open>created\<close> is the result of \<open>discordgo.New\<close> and \<open>opened\<close> the error of
  \<open>session.Open\<close>.
\<close>

definition Start ::
  "service \<Rightarrow> error + Session \<Rightarrow> error option \<Rightarrow> error + Message list \<Rightarrow> string
     \<Rightarrow> error + Message \<Rightarrow> error option \<times> service \<times> request list"
where
  "Start s created opened fetched now sent =
     (case created of
        Inl e \<Rightarrow> (Some (wrapErr ''failed to create Discord session'' e), s, [])
      | Inr sess \<Rightarrow>
     (case opened of
        Some e \<Rightarrow> (Some (wrapErr ''failed to open Discord connection'' e), s, [])
      | None \<Rightarrow>
     (case findOrCreateMessage (s\<lparr>session := Some sess\<rparr>) fetched now sent of
        (Some e, s', reqs) \<Rightarrow>
          (Some (wrapErr ''failed to find or create status message'' e), s', reqs @ [Close])
      | (None, s', reqs) \<Rightarrow> (None, s', reqs))))"

text \<open>
  \<open>time.Since(t)\<close> is \<open>time.Now().Sub(t)\<close>, and \<open>Sub\<close> saturates at the least and
  the greatest \<open>Duration\<close>.
\<close>

definition Since :: "int \<Rightarrow> int \<Rightarrow> int" where
  "Since now t =
     (if now - t > 2 ^ 63 - 1 then 2 ^ 63 - 1
      else if now - t < - (2 ^ 63) then - (2 ^ 63)
      else now - t)"

text \<open>
  What one call of \<open>UpdateStatus\<close> reads from outside: the clock, three times, and
  the errors of the two requests.
\<close>

record tick =
  clockEmbed :: string
  editError :: "error option"
  clockSince :: int
  renameError :: "error option"
  clockRenamed :: int

definition channelName :: "string \<Rightarrow> State \<Rightarrow> string" where
  "channelName format state =
     ReplaceAll
       (ReplaceAll
          (ReplaceAll format ''{online}'' (sprint_d (TotalUsers state)))
          ''{max}'' (sprint_d (MaxClients state)))
       ''{server}'' (ServerName state)"

definition maybeUpdateChannelName :: "service \<Rightarrow> tick \<Rightarrow> State \<Rightarrow> service \<times> request list" where
  "maybeUpdateChannelName s env state =
     (if TotalUsers state = lastUserCount s then (s, [])
      else if Since (clockSince env) (lastChannelRename s) < 5 * Minute then (s, [])
      else
        (let newName = channelName (ChannelNameFormat (display s)) state;
             edit = ChannelEdit (cfg_ChannelID (cfg s)) newName in
         case renameError env of
           Some e \<Rightarrow> (s, [edit])
         | None \<Rightarrow>
             (s\<lparr>lastUserCount := TotalUsers state, lastChannelRename := clockRenamed env\<rparr>,
              [edit])))"

definition UpdateStatus ::
  "service \<Rightarrow> tick \<Rightarrow> State option \<Rightarrow> error option \<times> service \<times> request list"
where
  "UpdateStatus s env state =
     (case session s of
        None \<Rightarrow> (Some (Err ''not connected to Discord''), s, [])
      | Some sess \<Rightarrow>
     (let embed = buildEmbed (display s) (clockEmbed env) state;
          edit = ChannelMessageEditEmbed (cfg_ChannelID (cfg s)) (messageID s) embed in
      case editError env of
        Some e \<Rightarrow> (Some (wrapErr ''failed to update status message'' e), s, [edit])
      | None \<Rightarrow>
     (case state of
        None \<Rightarrow> (None, s, [edit])
      | Some st \<Rightarrow>
          (if ChannelNameFormat (display s) \<noteq> []
           then (let (s', reqs) = maybeUpdateChannelName s env st in (None, s', edit # reqs))
           else (None, s, [edit])))))"

text \<open>A run of the service after \<open>Start\<close>: one \<open>UpdateStatus\<close> per tick, in order.\<close>

fun runTicks :: "service \<Rightarrow> (tick \<times> State option) list \<Rightarrow> service \<times> request list" where
  "runTicks s [] = (s, [])"
| "runTicks s ((env, state) # rest) =
     (case UpdateStatus s env state of
        (err, s', reqs) \<Rightarrow> (case runTicks s' rest of (s'', reqs') \<Rightarrow> (s'', reqs @ reqs')))"


section \<open>Auxiliary definitions and sample inputs\<close>

text \<open>The users that \<open>GetState\<close> lists under the channel \<open>k\<close>, in the order of the client list.\<close>

definition usersIn :: "int \<Rightarrow> OnlineClient list \<Rightarrow> User list" where
  "usersIn k cls = map mkUser (filter (\<lambda>cl. cl_Type cl \<noteq> 1 \<and> cl_ChannelID cl = k) cls)"

text \<open>A server with two channels, three users (one of them in a channel that is not listed) and one ServerQuery client.\<close>

definition exServer :: ts3_Server where
  "exServer = \<lparr>srv_Name = ''srv'', srv_Uptime = 3600, srv_MaxClients = 10\<rparr>"

definition exTsChannels :: "ts3_Channel list" where
  "exTsChannels =
     [\<lparr>ts_ID = 1, ChannelName = ''Lobby'', ts_ParentID = 0, ChannelOrder = 0\<rparr>,
      \<lparr>ts_ID = 2, ChannelName = ''Gaming'', ts_ParentID = 0, ChannelOrder = 1\<rparr>]"

definition exClient :: "int \<Rightarrow> int \<Rightarrow> string \<Rightarrow> int \<Rightarrow> OnlineClient" where
  "exClient i c n t =
     \<lparr>cl_ID = i, cl_ChannelID = c, cl_Nickname = n, cl_Type = t, cl_Away = False,
      cl_AwayMessage = [], cl_Ext = Some \<lparr>ext_Voice = None, ext_Times = None\<rparr>\<rparr>"

definition exClients :: "OnlineClient list" where
  "exClients =
     [exClient 1 1 ''alice'' 0, exClient 2 1 ''serveradmin'' 1, exClient 3 7 ''bob'' 0,
      exClient 4 2 ''carol'' 0]"

definition exSnapshot :: State where
  "exSnapshot =
     \<lparr>ServerName = ''srv'', Uptime = 3600000000000,
      Channels =
        [\<lparr>ch_ID = 1, Name = ''Lobby'', ParentID = 0, Order = 0,
          Users = [mkUser (exClient 1 1 ''alice'' 0)]\<rparr>,
         \<lparr>ch_ID = 2, Name = ''Gaming'', ParentID = 0, Order = 1,
          Users = [mkUser (exClient 4 2 ''carol'' 0)]\<rparr>],
      TotalUsers = 3, MaxClients = 10\<rparr>"

text \<open>A user who records, is muted both ways, is away with a message, and idle for 70 minutes.\<close>

definition exUser :: User where
  "exUser = \<lparr>ID = 7, Nickname = ''bob'', ChannelID = 1, InputMuted = True, OutputMuted = True,
         Away = True, AwayMessage = ''lunch'', IdleTime = 70 * Minute, IsRecording = True\<rparr>"

definition exDisplay :: DisplayConfig where
  "exDisplay = \<lparr>ShowEmptyChannels = True, ServerAddress = [], ServerPassword = [], CustomFooter = [],
          ChannelNameFormat = ''TS: {online}/{max}'', ThumbnailURL = []\<rparr>"

definition exLobby :: Channel where
  "exLobby = \<lparr>ch_ID = 1, Name = ''Lobby'', ParentID = 0, Order = 0, Users = []\<rparr>"

definition exState :: "int \<Rightarrow> int \<Rightarrow> State" where
  "exState online cap = \<lparr>ServerName = ''srv'', Uptime = 3 * Hour, Channels = [exLobby],
       TotalUsers = online, MaxClients = cap\<rparr>"

definition exConfig :: Config where
  "exConfig = \<lparr>Token = ''token'', cfg_ChannelID = ''chan''\<rparr>"

definition exT0 :: int where
  "exT0 = 63900000000 * Second"

definition exService :: service where
  "exService = \<lparr>cfg = exConfig, display = exDisplay, session = Some \<lparr>botID = ''self''\<rparr>,
                 messageID = ''msg-1'', lastUserCount = 5, lastChannelRename = exT0\<rparr>"

definition exTick :: "int \<Rightarrow> error option \<Rightarrow> tick" where
  "exTick elapsed renameErr =
     \<lparr>clockEmbed = ''2026-11-01T18:12:00Z'', editError = None, clockSince = exT0 + elapsed,
      renameError = renameErr, clockRenamed = exT0 + elapsed + 1\<rparr>"

definition exMessage :: "string \<Rightarrow> string \<Rightarrow> MessageEmbed list \<Rightarrow> Message" where
  "exMessage i a es = \<lparr>msg_ID = i, msg_AuthorID = a, Embeds = es\<rparr>"

definition exMessages :: "Message list" where
  "exMessages =
     [exMessage ''m9'' ''alice'' [buildEmbed exDisplay ''t'' None],
      exMessage ''m8'' ''self'' [],
      exMessage ''m7'' ''self'' [buildEmbed exDisplay ''t'' None],
      exMessage ''m6'' ''carol'' []]"

definition exFresh :: service where
  "exFresh = NewService exConfig exDisplay"

definition exTicks :: "(tick \<times> State option) list" where
  "exTicks =
     [(exTick (5 * Minute) None, Some (exState 7 10)),
      ((exTick (6 * Minute) None)\<lparr>editError := Some (Err ''unknown message'')\<rparr>, Some (exState 8 10)),
      (exTick (7 * Minute) None, Some (exState 8 10))]"





section \<open>Evaluation\<close>

lemmas time_defs = Minute_def Second_def Hour_def
lemmas fmt_defs = sprint_d_def digitsOf.simps signed_divide_int_def signed_modulo_int_def

section \<open>float64: rounding and comparison\<close>





































section \<open>The snapshot: \<open>GetState\<close>\<close>

lemma buildChannels_snd: "snd (buildChannels chs (m, xs)) = xs @ map newChannel chs"
  by (induction chs arbitrary: m xs) auto

lemma buildChannels_fst_in:
  "k \<in> ts_ID ` set chs \<Longrightarrow> \<exists>c. fst (buildChannels chs (m, xs)) k = Some c \<and> Users c = []"
proof (induction chs arbitrary: m xs)
  case Nil then show ?case by simp
next
  case (Cons ch chs)
  show ?case
  proof (cases "k \<in> ts_ID ` set chs")
    case True
    then show ?thesis using Cons.IH by simp
  next
    case False
    then have k: "k = ts_ID ch" using Cons.prems by auto
    have "\<And>m xs. k \<notin> ts_ID ` set chs \<Longrightarrow> fst (buildChannels chs (m, xs)) k = m k"
      by (induction chs) auto
    with False k show ?thesis by (simp add: newChannel_def)
  qed
qed

lemma assignClients_Inr:
  "assignClients cls (m, n) = Inr (m', n') \<Longrightarrow>
     n' = n + int (length (filter (\<lambda>cl. cl_Type cl \<noteq> 1) cls))
     \<and> (\<forall>k. m' k = map_option (\<lambda>ch. ch\<lparr>Users := Users ch @ usersIn k cls\<rparr>) (m k))"
proof (induction cls arbitrary: m n)
  case Nil
  then show ?case by (simp add: usersIn_def option.map_ident)
next
  case (Cons cl cls)
  show ?case
  proof (cases "cl_Type cl = 1")
    case True
    with Cons.prems have "assignClients cls (m, n) = Inr (m', n')" by simp
    from Cons.IH[OF this] True show ?thesis by (simp add: usersIn_def)
  next
    case False
    define m1 where "m1 = (case m (cl_ChannelID cl) of
              Some ch \<Rightarrow> m(cl_ChannelID cl \<mapsto> ch\<lparr>Users := Users ch @ [mkUser cl]\<rparr>)
            | None \<Rightarrow> m)"
    from Cons.prems False have r: "assignClients cls (m1, n + 1) = Inr (m', n')"
      by (simp add: m1_def split: if_splits)
    note ih = Cons.IH[OF r]
    have "m' k = map_option (\<lambda>ch. ch\<lparr>Users := Users ch @ usersIn k (cl # cls)\<rparr>) (m k)" for k
      using ih False by (cases "m k") (auto simp: m1_def usersIn_def split: option.splits)
    with ih False show ?thesis by simp
  qed
qed

lemma GetState_Inr_hasClient:
  "GetState h info chl cll = Inr st \<Longrightarrow> h"
  by (auto simp: GetState_def split: if_splits)

lemma GetState_Inr:
  assumes g: "GetState hasClient info (Inr channels) (Inr clients) = Inr st"
  shows "Channels st = map (\<lambda>ch. (newChannel ch)\<lparr>Users := usersIn (ts_ID ch) clients\<rparr>) channels"
    and "TotalUsers st = int (length (filter (\<lambda>cl. cl_Type cl \<noteq> 1) clients))"
proof -
  have h: hasClient using g by (rule GetState_Inr_hasClient)
  obtain server where i: "info = Inr server"
    using g h by (cases info) (auto simp: GetState_def)
  obtain m0 xs where b: "buildChannels channels (Map.empty, []) = (m0, xs)" by force
  obtain m1 n where a: "assignClients clients (m0, 0) = Inr (m1, n)"
    using g h i b by (cases "assignClients clients (m0, 0)") (auto simp: GetState_def)
  have st: "Channels st = map (populate m1) xs" "TotalUsers st = n"
    using g h i b a by (auto simp: GetState_def)
  have xs: "xs = map newChannel channels"
    using buildChannels_snd[of channels Map.empty "[]"] b by simp
  note ac = assignClients_Inr[OF a]
  have "populate m1 (newChannel ch) = (newChannel ch)\<lparr>Users := usersIn (ts_ID ch) clients\<rparr>"
    if "ch \<in> set channels" for ch
  proof -
    from that obtain c where "m0 (ts_ID ch) = Some c" "Users c = []"
      using buildChannels_fst_in[of "ts_ID ch" channels Map.empty "[]"] b by auto
    then show ?thesis using ac by (simp add: populate_def newChannel_def)
  qed
  then show "Channels st = map (\<lambda>ch. (newChannel ch)\<lparr>Users := usersIn (ts_ID ch) clients\<rparr>) channels"
    by (simp add: st xs)
  show "TotalUsers st = int (length (filter (\<lambda>cl. cl_Type cl \<noteq> 1) clients))"
    using ac by (simp add: st)
qed






lemma GetState_example:
  "GetState True (Inr exServer) (Inr exTsChannels) (Inr exClients) = Inr exSnapshot"
  by code_simp


text \<open>
  C10. \<open>GetState\<close> skips the ServerQuery clients (\<open>Type = 1\<close>): its result is
  the one it gives on the client list without them, \<open>TotalUsers\<close> is the number of
  the other clients, and every user in a channel's list is the user of a client that
  is not a ServerQuery client.
\<close>

theorem C10_server_query_excluded:
  "GetState hasClient info channelList (Inr clients) =
     GetState hasClient info channelList (Inr (filter (\<lambda>cl. cl_Type cl \<noteq> 1) clients))
   \<and> (\<forall>st. GetState hasClient info channelList (Inr clients) = Inr st \<longrightarrow>
        TotalUsers st = int (length (filter (\<lambda>cl. cl_Type cl \<noteq> 1) clients))
        \<and> (\<forall>c\<in>set (Channels st). \<forall>u\<in>set (Users c).
              \<exists>cl\<in>set clients. cl_Type cl \<noteq> 1 \<and> u = mkUser cl))"
proof -
  have eq: "assignClients (filter (\<lambda>cl. cl_Type cl \<noteq> 1) cls) acc = assignClients cls acc" for cls acc
    by (induction cls acc rule: assignClients.induct) auto
  have 1: "GetState hasClient info channelList (Inr clients) =
     GetState hasClient info channelList (Inr (filter (\<lambda>cl. cl_Type cl \<noteq> 1) clients))"
    by (simp add: GetState_def eq split: sum.splits)
  have 2: "TotalUsers st = int (length (filter (\<lambda>cl. cl_Type cl \<noteq> 1) clients))
        \<and> (\<forall>c\<in>set (Channels st). \<forall>u\<in>set (Users c).
              \<exists>cl\<in>set clients. cl_Type cl \<noteq> 1 \<and> u = mkUser cl)"
    if g: "GetState hasClient info channelList (Inr clients) = Inr st" for st
  proof -
    have h: hasClient using g by (rule GetState_Inr_hasClient)
    obtain server where i: "info = Inr server"
      using g h by (cases info) (auto simp: GetState_def)
    obtain channels where c: "channelList = Inr channels"
      using g h i by (cases channelList) (auto simp: GetState_def)
    from GetState_Inr[OF g[unfolded c]] show ?thesis by (fastforce simp: usersIn_def)
  qed
  from 1 2 show ?thesis by blast
qed

theorem C10_server_query_excluded_witness:
  "GetState True (Inr exServer) (Inr exTsChannels) (Inr exClients) =
     GetState True (Inr exServer) (Inr exTsChannels)
       (Inr [exClient 1 1 ''alice'' 0, exClient 3 7 ''bob'' 0, exClient 4 2 ''carol'' 0])
   \<and> GetState True (Inr exServer) (Inr exTsChannels) (Inr exClients) = Inr exSnapshot
   \<and> TotalUsers exSnapshot = 3
   \<and> mkUser (exClient 2 1 ''serveradmin'' 1) \<notin> set (concat (map Users (Channels exSnapshot)))"
proof -
  note g = GetState_example
  have f: "filter (\<lambda>cl. cl_Type cl \<noteq> 1) exClients =
             [exClient 1 1 ''alice'' 0, exClient 3 7 ''bob'' 0, exClient 4 2 ''carol'' 0]"
    by (simp add: exClients_def exClient_def)
  have n: "mkUser (exClient 2 1 ''serveradmin'' 1) \<notin> set (concat (map Users (Channels exSnapshot)))"
    by (simp add: exSnapshot_def mkUser_def exClient_def)
  show ?thesis
    using g n C10_server_query_excluded [of True "Inr exServer" "Inr exTsChannels" exClients]
    by (simp add: f exSnapshot_def)
qed

section \<open>The projection: \<open>buildEmbed\<close>\<close>

text \<open>
  C1, as the code has it. \<open>buildEmbed\<close> reads the clock: two calls with the same
  options and the same (here \<open>nil\<close>) state, one second apart, differ.
\<close>

theorem C1_counterexample:
  "buildEmbed exDisplay ''2026-11-01T18:12:00Z'' None \<noteq> buildEmbed exDisplay ''2026-11-01T18:12:01Z'' None"
  by (simp add: buildEmbed_def)

text \<open>
  C1, amended. \<open>buildEmbed\<close> changes nothing; its result is a function of the
  display options, the state and the clock reading. The clock reading is the
  \<open>Timestamp\<close> of the embed, and every other field is the same at every time.
\<close>

theorem C1_buildEmbed_clock:
  "buildEmbed d now st = (buildEmbed d now' st)\<lparr>Timestamp := now\<rparr>
   \<and> Timestamp (buildEmbed d now st) = now"
  by (cases st) (simp_all add: buildEmbed_def)




section \<open>The status of a user and the channel list\<close>

text \<open>
  C2. \<open>buildUserStatus\<close> writes the recording icon, then one muting icon (the
  output one first), then the away icon, then the idle time when it exceeds five
  minutes, in this order; but the away message is never written: the status does not
  depend on it. The sample user, away with the message \<open>lunch\<close>, gets the bare away
  icon, while \<open>buildUserStatusCLI\<close> of the dry run writes the message in
  parentheses.
\<close>

theorem C2_away_message_dropped:
  "buildUserStatus (u\<lparr>AwayMessage := m\<rparr>) = buildUserStatus u
   \<and> buildUserStatus exUser = recordingIcon @ outputMutedIcon @ awayIcon @ '' (1h10m idle)''
   \<and> buildUserStatusCLI exUser =
       cliRecording @ '' '' @ cliOutputMuted @ '' '' @ cliAway @ ''(lunch)'' @ '' '' @ ''idle 1h10m''"
proof -
  have 1: "buildUserStatus (u\<lparr>AwayMessage := m\<rparr>) = buildUserStatus u"
    by (simp add: buildUserStatus_def)
  have 2: "buildUserStatus exUser = recordingIcon @ outputMutedIcon @ awayIcon @ '' (1h10m idle)''"
    by code_simp
  have 3: "buildUserStatusCLI exUser =
       cliRecording @ '' '' @ cliOutputMuted @ '' '' @ cliAway @ ''(lunch)'' @ '' '' @ ''idle 1h10m''"
    by code_simp
  from 1 2 3 show ?thesis by simp
qed






section \<open>The service\<close>

lemma Since_ge_5min: "Since now t < 5 * Minute \<longleftrightarrow> now - t < 5 * Minute"
  by (simp add: Since_def time_defs)

lemma channelName_ex: "channelName ''TS: {online}/{max}'' (exState 7 10) = ''TS: 7/10''"
  by (simp add: channelName_def exState_def ReplaceAll.simps HasPrefix_def fmt_defs)

text \<open>
  C4. \<open>maybeUpdateChannelName\<close> with a count equal to \<open>lastUserCount\<close> sends
  nothing and leaves the service as it is, whatever the clock reads. With another
  count it sends the rename exactly when five minutes or more have passed since
  \<open>lastChannelRename\<close>, and sends nothing exactly when less has passed. Whenever it
  sends nothing, the service is unchanged.
\<close>

theorem C4_rename_gate:
  "(TotalUsers st = lastUserCount s \<longrightarrow> maybeUpdateChannelName s env st = (s, []))
   \<and> (TotalUsers st \<noteq> lastUserCount s \<longrightarrow>
        (snd (maybeUpdateChannelName s env st) =
           [ChannelEdit (cfg_ChannelID (cfg s)) (channelName (ChannelNameFormat (display s)) st)]
         \<longleftrightarrow> clockSince env - lastChannelRename s \<ge> 5 * Minute)
        \<and> (snd (maybeUpdateChannelName s env st) = []
         \<longleftrightarrow> clockSince env - lastChannelRename s < 5 * Minute))
   \<and> (snd (maybeUpdateChannelName s env st) = [] \<longrightarrow> fst (maybeUpdateChannelName s env st) = s)"
  by (auto simp: maybeUpdateChannelName_def Since_ge_5min Let_def split: option.splits)

theorem C4_rename_gate_witness:
  "TotalUsers (exState 5 10) = lastUserCount exService
   \<and> TotalUsers (exState 7 10) \<noteq> lastUserCount exService
   \<and> maybeUpdateChannelName exService (exTick (24 * Hour) None) (exState 5 10) = (exService, [])
   \<and> snd (maybeUpdateChannelName exService (exTick (5 * Minute) None) (exState 7 10)) =
       [ChannelEdit ''chan'' ''TS: 7/10'']
   \<and> snd (maybeUpdateChannelName exService (exTick (5 * Minute - 1) None) (exState 7 10)) = []
   \<and> fst (maybeUpdateChannelName exService (exTick (5 * Minute - 1) None) (exState 7 10)) = exService"
proof -
  have a: "TotalUsers (exState 5 10) = lastUserCount exService"
    by (simp add: exState_def exService_def)
  have b: "TotalUsers (exState 7 10) \<noteq> lastUserCount exService"
    by (simp add: exState_def exService_def)
  have c: "clockSince (exTick (5 * Minute) None) - lastChannelRename exService \<ge> 5 * Minute"
    by (simp add: exTick_def exService_def)
  have d: "clockSince (exTick (5 * Minute - 1) None) - lastChannelRename exService < 5 * Minute"
    by (simp add: exTick_def exService_def)
  have n: "channelName (ChannelNameFormat (display exService)) (exState 7 10) = ''TS: 7/10''"
    "cfg_ChannelID (cfg exService) = ''chan''"
    by (simp_all add: exService_def exDisplay_def exConfig_def channelName_ex)
  show ?thesis
    using a b c d
      C4_rename_gate [of "exState 5 10" exService "exTick (24 * Hour) None"]
      C4_rename_gate [of "exState 7 10" exService "exTick (5 * Minute) None"]
      C4_rename_gate [of "exState 7 10" exService "exTick (5 * Minute - 1) None"]
    by (simp add: n)
qed

text \<open>
  C5. When the edit of the message has succeeded and the rename is due, a failing
  \<open>ChannelEdit\<close> leaves the service as it is and \<open>UpdateStatus\<close> still returns no
  error; a succeeding one sets \<open>lastUserCount\<close> to the new count and
  \<open>lastChannelRename\<close> to the clock reading.
\<close>

theorem C5_rename_failure:
  assumes "session s = Some sess" and "editError env = None"
    and "ChannelNameFormat (display s) \<noteq> []"
    and "TotalUsers st \<noteq> lastUserCount s"
    and "clockSince env - lastChannelRename s \<ge> 5 * Minute"
  shows "(renameError env = Some e \<longrightarrow>
            UpdateStatus s env (Some st) =
              (None, s,
               [ChannelMessageEditEmbed (cfg_ChannelID (cfg s)) (messageID s)
                  (buildEmbed (display s) (clockEmbed env) (Some st)),
                ChannelEdit (cfg_ChannelID (cfg s)) (channelName (ChannelNameFormat (display s)) st)]))
       \<and> (renameError env = None \<longrightarrow>
            UpdateStatus s env (Some st) =
              (None, s\<lparr>lastUserCount := TotalUsers st, lastChannelRename := clockRenamed env\<rparr>,
               [ChannelMessageEditEmbed (cfg_ChannelID (cfg s)) (messageID s)
                  (buildEmbed (display s) (clockEmbed env) (Some st)),
                ChannelEdit (cfg_ChannelID (cfg s)) (channelName (ChannelNameFormat (display s)) st)]))"
proof -
  have g: "\<not> Since (clockSince env) (lastChannelRename s) < 5 * Minute"
    using assms(5) by (simp add: Since_ge_5min)
  show ?thesis
    using assms(1-4) g by (simp add: UpdateStatus_def maybeUpdateChannelName_def)
qed

theorem C5_rename_failure_witness:
  "session exService = Some \<lparr>botID = ''self''\<rparr>
   \<and> editError (exTick (5 * Minute) (Some (Err ''429''))) = None
   \<and> ChannelNameFormat (display exService) \<noteq> []
   \<and> TotalUsers (exState 7 10) \<noteq> lastUserCount exService
   \<and> clockSince (exTick (5 * Minute) (Some (Err ''429''))) - lastChannelRename exService \<ge> 5 * Minute
   \<and> fst (UpdateStatus exService (exTick (5 * Minute) (Some (Err ''429''))) (Some (exState 7 10))) = None
   \<and> fst (snd (UpdateStatus exService (exTick (5 * Minute) (Some (Err ''429''))) (Some (exState 7 10))))
       = exService
   \<and> fst (snd (UpdateStatus exService (exTick (5 * Minute) None) (Some (exState 7 10))))
       = exService\<lparr>lastUserCount := 7, lastChannelRename := exT0 + 5 * Minute + 1\<rparr>"
proof -
  have a: "session exService = Some \<lparr>botID = ''self''\<rparr>" by (simp add: exService_def)
  have b: "editError (exTick (5 * Minute) r) = None" for r by (simp add: exTick_def)
  have c: "ChannelNameFormat (display exService) \<noteq> []" by (simp add: exService_def exDisplay_def)
  have d: "TotalUsers (exState 7 10) \<noteq> lastUserCount exService"
    by (simp add: exState_def exService_def)
  have e: "clockSince (exTick (5 * Minute) r) - lastChannelRename exService \<ge> 5 * Minute" for r
    by (simp add: exTick_def exService_def)
  have f: "renameError (exTick (5 * Minute) r) = r" "clockRenamed (exTick (5 * Minute) r) = exT0 + 5 * Minute + 1"
    "TotalUsers (exState 7 10) = 7" for r
    by (simp_all add: exTick_def exState_def)
  show ?thesis
    using a b c d e
      C5_rename_failure [OF a b c d e, of "Some (Err ''429'')" "Err ''429''"]
      C5_rename_failure [OF a b c d e, of None]
    by (simp add: f)
qed

lemma findOwn_filter:
  "findOwn self msgs =
     (case filter (\<lambda>m. msg_AuthorID m = self \<and> Embeds m \<noteq> []) msgs of
        [] \<Rightarrow> None | m # _ \<Rightarrow> Some m)"
  by (induction msgs) auto

text \<open>
  C7. \<open>findOrCreateMessage\<close> asks for the 50 most recent messages. When exactly
  one of them is of the bot and has an embed, its id becomes \<open>messageID\<close> and no
  message is sent. When none is, exactly one message is sent, with the embed of the
  \<open>nil\<close> state (the connecting text and colour); its id becomes \<open>messageID\<close>,
  and when the sending fails the error is returned and \<open>messageID\<close> stays.
\<close>

theorem C7_adopt_or_create:
  assumes "session s = Some sess"
  shows "(filter (\<lambda>m. msg_AuthorID m = botID sess \<and> Embeds m \<noteq> []) msgs = [own] \<longrightarrow>
            findOrCreateMessage s (Inr msgs) now sent =
              (None, s\<lparr>messageID := msg_ID own\<rparr>, [ChannelMessages (cfg_ChannelID (cfg s)) 50]))
       \<and> (filter (\<lambda>m. msg_AuthorID m = botID sess \<and> Embeds m \<noteq> []) msgs = [] \<longrightarrow>
            findOrCreateMessage s (Inr msgs) now (Inr created) =
              (None, s\<lparr>messageID := msg_ID created\<rparr>,
               [ChannelMessages (cfg_ChannelID (cfg s)) 50,
                ChannelMessageSendEmbed (cfg_ChannelID (cfg s)) (buildEmbed (display s) now None)])
            \<and> findOrCreateMessage s (Inr msgs) now (Inl e) =
              (Some (wrapErr ''failed to create status message'' e), s,
               [ChannelMessages (cfg_ChannelID (cfg s)) 50,
                ChannelMessageSendEmbed (cfg_ChannelID (cfg s)) (buildEmbed (display s) now None)])
            \<and> Description (buildEmbed (display s) now None) = connectingText
            \<and> Color (buildEmbed (display s) now None) = colorConnecting)"
  using assms by (simp add: findOrCreateMessage_def findOwn_filter buildEmbed_def)

theorem C7_adopt_or_create_witness:
  "session exService = Some \<lparr>botID = ''self''\<rparr>
   \<and> filter (\<lambda>m. msg_AuthorID m = ''self'' \<and> Embeds m \<noteq> []) exMessages
       = [exMessage ''m7'' ''self'' [buildEmbed exDisplay ''t'' None]]
   \<and> filter (\<lambda>m. msg_AuthorID m = ''self'' \<and> Embeds m \<noteq> []) (take 2 exMessages) = []
   \<and> findOrCreateMessage exService (Inr exMessages) ''t'' (Inl (Err ''unused'')) =
       (None, exService\<lparr>messageID := ''m7''\<rparr>, [ChannelMessages ''chan'' 50])
   \<and> findOrCreateMessage exService (Inr (take 2 exMessages)) ''t'' (Inr (exMessage ''m10'' ''self'' [])) =
       (None, exService\<lparr>messageID := ''m10''\<rparr>,
        [ChannelMessages ''chan'' 50, ChannelMessageSendEmbed ''chan'' (buildEmbed exDisplay ''t'' None)])"
proof -
  have a: "session exService = Some \<lparr>botID = ''self''\<rparr>" by (simp add: exService_def)
  have b: "filter (\<lambda>m. msg_AuthorID m = ''self'' \<and> Embeds m \<noteq> []) exMessages
       = [exMessage ''m7'' ''self'' [buildEmbed exDisplay ''t'' None]]"
    by (simp add: exMessages_def exMessage_def)
  have c: "filter (\<lambda>m. msg_AuthorID m = ''self'' \<and> Embeds m \<noteq> []) (take 2 exMessages) = []"
    by (simp add: exMessages_def exMessage_def)
  have f: "cfg_ChannelID (cfg exService) = ''chan''" "display exService = exDisplay"
    "msg_ID (exMessage i x es) = i" for i x es
    by (simp_all add: exService_def exConfig_def exMessage_def)
  show ?thesis
    using a b c
      C7_adopt_or_create [OF a, of exMessages "exMessage ''m7'' ''self'' [buildEmbed exDisplay ''t'' None]"
        "''t''" "Inl (Err ''unused'')"]
      C7_adopt_or_create [OF a, of "take 2 exMessages" _ "''t''" _ "exMessage ''m10'' ''self'' []"]
    by (simp add: f)
qed

lemma maybeUpdateChannelName_frame:
  "maybeUpdateChannelName s env st = (s', reqs) \<Longrightarrow>
     cfg s' = cfg s \<and> display s' = display s \<and> session s' = session s \<and> messageID s' = messageID s
     \<and> (\<forall>r\<in>set reqs. \<exists>n. r = ChannelEdit (cfg_ChannelID (cfg s)) n)"
  by (auto simp: maybeUpdateChannelName_def Let_def split: if_splits option.splits)

lemma UpdateStatus_frame:
  assumes "UpdateStatus s env st = (err, s', reqs)"
  shows "cfg s' = cfg s \<and> display s' = display s \<and> session s' = session s \<and> messageID s' = messageID s"
proof (cases "\<exists>x. st = Some x \<and> session s \<noteq> None \<and> editError env = None \<and> ChannelNameFormat (display s) \<noteq> []")
  case True
  then obtain x where x: "st = Some x" "session s \<noteq> None" "editError env = None"
    "ChannelNameFormat (display s) \<noteq> []" by blast
  obtain s1 r1 where m: "maybeUpdateChannelName s env x = (s1, r1)" by force
  have "s' = s1" using assms x m by (auto simp: UpdateStatus_def)
  then show ?thesis using maybeUpdateChannelName_frame[OF m] by simp
next
  case False
  then have "s' = s" using assms
    by (auto simp: UpdateStatus_def Let_def split: option.splits if_splits)
  then show ?thesis by simp
qed

lemma UpdateStatus_requests:
  assumes "session s = Some sess"
  shows "\<exists>rest. snd (snd (UpdateStatus s env st)) =
           ChannelMessageEditEmbed (cfg_ChannelID (cfg s)) (messageID s)
             (buildEmbed (display s) (clockEmbed env) st) # rest
         \<and> (\<forall>r\<in>set rest. \<exists>n. r = ChannelEdit (cfg_ChannelID (cfg s)) n)"
proof (cases "\<exists>x. st = Some x \<and> editError env = None \<and> ChannelNameFormat (display s) \<noteq> []")
  case True
  then obtain x where x: "st = Some x" "editError env = None"
    "ChannelNameFormat (display s) \<noteq> []" by blast
  obtain s1 r1 where m: "maybeUpdateChannelName s env x = (s1, r1)" by force
  show ?thesis using assms x m maybeUpdateChannelName_frame[OF m]
    by (simp add: UpdateStatus_def)
next
  case False
  then show ?thesis using assms
    by (auto simp: UpdateStatus_def Let_def split: option.splits)
qed

lemma runTicks_frame:
  "session s = Some sess \<Longrightarrow>
   messageID (fst (runTicks s ticks)) = messageID s
   \<and> (\<forall>r\<in>set (snd (runTicks s ticks)).
         (\<exists>emb. r = ChannelMessageEditEmbed (cfg_ChannelID (cfg s)) (messageID s) emb)
         \<or> (\<exists>n. r = ChannelEdit (cfg_ChannelID (cfg s)) n))"
proof (induction ticks arbitrary: s)
  case Nil
  then show ?case by simp
next
  case (Cons t ticks)
  obtain env st where t: "t = (env, st)" by force
  obtain err s1 r1 where u: "UpdateStatus s env st = (err, s1, r1)" by (metis prod_cases3)
  obtain s2 r2 where r: "runTicks s1 ticks = (s2, r2)" by force
  note f = UpdateStatus_frame[OF u]
  have s1: "session s1 = Some sess" using f Cons.prems by simp
  note ih = Cons.IH[OF s1]
  from UpdateStatus_requests[OF Cons.prems, of env st] u
  have r1: "\<forall>q\<in>set r1. (\<exists>emb. q = ChannelMessageEditEmbed (cfg_ChannelID (cfg s)) (messageID s) emb)
         \<or> (\<exists>n. q = ChannelEdit (cfg_ChannelID (cfg s)) n)"
    by auto
  show ?case using ih r1 f by (auto simp: t u r)
qed

lemma Start_success:
  assumes "Start s0 created opened fetched now sent = (None, s, reqs0)"
  shows "\<exists>sess. session s = Some sess"
proof -
  from assms obtain sess where c: "created = Inr sess"
    by (cases created) (auto simp: Start_def)
  from assms c have o: "opened = None"
    by (cases opened) (auto simp: Start_def)
  from assms c o have "findOrCreateMessage (s0\<lparr>session := Some sess\<rparr>) fetched now sent = (None, s, reqs0)"
    by (auto simp: Start_def split: prod.splits option.splits)
  then have "session s = Some sess"
    by (auto simp: findOrCreateMessage_def Let_def split: sum.splits option.splits)
  then show ?thesis by blast
qed

text \<open>
  C8. After a successful \<open>Start\<close>, every \<open>UpdateStatus\<close> sends first the edit of
  the message \<open>messageID\<close>, then at most renames of the channel, and keeps
  \<open>messageID\<close>; when the edit fails it returns the error, sends nothing more and
  leaves the service as it is. Over any run of ticks, \<open>messageID\<close> stays the same
  and every request is an edit of that one message or a rename: no message is
  created.
\<close>

theorem C8_single_artifact:
  assumes "Start s0 created opened fetched now sent = (None, s, reqs0)"
  shows "(\<exists>rest. snd (snd (UpdateStatus s env st)) =
            ChannelMessageEditEmbed (cfg_ChannelID (cfg s)) (messageID s)
              (buildEmbed (display s) (clockEmbed env) st) # rest
          \<and> (\<forall>r\<in>set rest. \<exists>n. r = ChannelEdit (cfg_ChannelID (cfg s)) n))
       \<and> messageID (fst (snd (UpdateStatus s env st))) = messageID s
       \<and> (editError env = Some e \<longrightarrow>
            UpdateStatus s env st =
              (Some (wrapErr ''failed to update status message'' e), s,
               [ChannelMessageEditEmbed (cfg_ChannelID (cfg s)) (messageID s)
                  (buildEmbed (display s) (clockEmbed env) st)]))
       \<and> messageID (fst (runTicks s ticks)) = messageID s
       \<and> (\<forall>r\<in>set (snd (runTicks s ticks)).
            (\<exists>emb. r = ChannelMessageEditEmbed (cfg_ChannelID (cfg s)) (messageID s) emb)
            \<or> (\<exists>n. r = ChannelEdit (cfg_ChannelID (cfg s)) n))"
proof -
  from Start_success[OF assms] obtain sess where se: "session s = Some sess" by blast
  obtain err s1 r1 where u: "UpdateStatus s env st = (err, s1, r1)" by (metis prod_cases3)
  have 2: "messageID (fst (snd (UpdateStatus s env st))) = messageID s"
    using UpdateStatus_frame[OF u] by (simp add: u)
  have 3: "UpdateStatus s env st =
              (Some (wrapErr ''failed to update status message'' e), s,
               [ChannelMessageEditEmbed (cfg_ChannelID (cfg s)) (messageID s)
                  (buildEmbed (display s) (clockEmbed env) st)])" if "editError env = Some e"
    using that se by (simp add: UpdateStatus_def)
  from UpdateStatus_requests[OF se, of env st] 2 3 runTicks_frame[OF se, of ticks]
  show ?thesis by blast
qed

theorem C8_single_artifact_witness:
  "Start exFresh (Inr \<lparr>botID = ''self''\<rparr>) None (Inr exMessages) ''t'' (Inl (Err ''unused'')) =
     (None, exFresh\<lparr>session := Some \<lparr>botID = ''self''\<rparr>, messageID := ''m7''\<rparr>,
      [ChannelMessages ''chan'' 50])
   \<and> messageID (fst (runTicks (exFresh\<lparr>session := Some \<lparr>botID = ''self''\<rparr>, messageID := ''m7''\<rparr>) exTicks))
       = ''m7''
   \<and> UpdateStatus (exFresh\<lparr>session := Some \<lparr>botID = ''self''\<rparr>, messageID := ''m7''\<rparr>)
        ((exTick (6 * Minute) None)\<lparr>editError := Some (Err ''unknown message'')\<rparr>) (Some (exState 8 10))
       = (Some (Err ''failed to update status message: unknown message''),
          exFresh\<lparr>session := Some \<lparr>botID = ''self''\<rparr>, messageID := ''m7''\<rparr>,
          [ChannelMessageEditEmbed ''chan'' ''m7''
             (buildEmbed exDisplay ''2026-11-01T18:12:00Z'' (Some (exState 8 10)))])"
proof -
  have a: "Start exFresh (Inr \<lparr>botID = ''self''\<rparr>) None (Inr exMessages) ''t'' (Inl (Err ''unused'')) =
     (None, exFresh\<lparr>session := Some \<lparr>botID = ''self''\<rparr>, messageID := ''m7''\<rparr>,
      [ChannelMessages ''chan'' 50])"
    by (simp add: Start_def findOrCreateMessage_def exFresh_def NewService_def exMessages_def
        exMessage_def exConfig_def)
  have f: "editError ((exTick (6 * Minute) None)\<lparr>editError := Some (Err ''unknown message'')\<rparr>)
             = Some (Err ''unknown message'')"
    "clockEmbed ((exTick (6 * Minute) None)\<lparr>editError := Some (Err ''unknown message'')\<rparr>)
             = ''2026-11-01T18:12:00Z''"
    "cfg_ChannelID (cfg (exFresh\<lparr>session := Some \<lparr>botID = ''self''\<rparr>, messageID := ''m7''\<rparr>)) = ''chan''"
    "display (exFresh\<lparr>session := Some \<lparr>botID = ''self''\<rparr>, messageID := ''m7''\<rparr>) = exDisplay"
    "cfg_ChannelID (cfg exFresh) = ''chan''" "display exFresh = exDisplay"
    by (simp_all add: exTick_def exFresh_def NewService_def exConfig_def)
  show ?thesis
    using a C8_single_artifact [OF a,
        of "(exTick (6 * Minute) None)\<lparr>editError := Some (Err ''unknown message'')\<rparr>"
           "Some (exState 8 10)" "Err ''unknown message''" exTicks]
    by (simp add: f)
qed

end
